theory Spec2Isabelle
  imports Complex_Main "HOL-Library.Sublist"
begin

section \<open>Data model of \<open>src/components/CalendarMap.tsx\<close>\<close>

text \<open>
  A \<open>Date\<close> is its time value, the milliseconds since the epoch. Coordinates are
  JavaScript numbers that the component only copies, never computes with.
\<close>

type_synonym date = int

record LatLng =
  latitude :: real
  longitude :: real

text \<open>The map region of \<open>useState\<close>: a centre and the two zoom deltas.\<close>

record Region = LatLng +
  latitudeDelta :: real
  longitudeDelta :: real

text \<open>One candidate of a geocoding response: \<open>results[i].geometry.location\<close>.\<close>

record GeoCandidate =
  lat :: real
  lng :: real

record Calendar =
  id_cal :: string
  title_cal :: string

text \<open>
  The fields of \<open>Calendar.Event\<close> that the component reads. \<open>location\<close> is
  \<open>string | null\<close>.
\<close>

record Event =
  id_ev :: string
  calendarId :: string
  title :: string
  location :: "string option"

text \<open>\<open>type EventWithLocation = Calendar.Event & { geoLocation: LatLng | null }\<close>\<close>

record EventWithLocation = Event +
  geoLocation :: "LatLng option"

datatype PickerType = PickStart | PickEnd

datatype Platform = IOS | Android | Windows | MacOS | Web

text \<open>
  A thrown value, or the reason of a rejected promise: an instance of \<open>Error\<close> with
  its message, or any other value.
\<close>

datatype Thrown = ErrorObject string | OtherThrown

datatype GeocodeOutcome = Rejected | Resolved "GeoCandidate list"

text \<open>The state cells of the component, in the order of their \<open>useState\<close> calls.\<close>

record State =
  startDate :: date
  endDate :: date
  showDatePicker :: bool
  datePickerType :: PickerType
  region :: Region
  calendarEvents :: "EventWithLocation list"

text \<open>
  What the component does to the outside, and the setter calls it makes. A function of
  the component returns the trace of its effects; a setter call does not change the
  constants of the render it was made in, it takes effect in the next state
  (\<open>commit\<close> below).
\<close>

datatype Effect =
    GeocoderInit string
  | GetCalendars
  | GetEvents "string list" date date
  | GeocoderFrom string
  | ConsoleWarn string string
  | ConsoleLog string string
  | AlertShown string "string option"
  | CanOpenURL string
  | OpenURL string
  | SetStartDate date
  | SetEndDate date
  | SetShowDatePicker bool
  | SetDatePickerType PickerType
  | SetCalendarEvents "EventWithLocation list"

text \<open>
  The platform services the component calls. The geocoder's answer is given for the
  position of the event in the fetched batch and the address asked, so that two events
  with the same address may be answered differently.
\<close>

record World =
  getCalendarsAsync :: "Thrown + Calendar list"
  getEventsAsync :: "string list \<Rightarrow> date \<Rightarrow> date \<Rightarrow> Thrown + Event list"
  Geocoder_from :: "nat \<Rightarrow> string \<Rightarrow> GeocodeOutcome"
  Platform_OS :: Platform
  canOpenURL :: "string \<Rightarrow> Thrown + bool"
  openURL :: "string \<Rightarrow> Thrown option"

section \<open>JavaScript and library primitives\<close>

text \<open>\<open>!s\<close> for a string: only the empty string is falsy.\<close>

definition falsy :: "string \<Rightarrow> bool" where
  "falsy s = (s = [])"

text \<open>
  \<open>Platform.select({ios: a, android: b})\<close>: the value under the key of the running
  platform, undefined when the object has no such key (no \<open>native\<close> or \<open>default\<close>
  key is given here).
\<close>

fun Platform_select :: "Platform \<Rightarrow> string \<Rightarrow> string \<Rightarrow> string option" where
  "Platform_select IOS ios android = Some ios"
| "Platform_select Android ios android = Some android"
| "Platform_select os ios android = None"

text \<open>
  Modelled from the spec: \<open>uniqBy\<close> is imported from the npm package lodash, whose
  source is not part of the repository. The spec's Deduplicator retains only the first
  occurrence per unique event identifier, preserving the order of first appearance; this
  is the library's loop, which walks the array once, keeps the keys seen so far and
  pushes a value to the result when its key is new.
\<close>

fun baseUniq :: "('a \<Rightarrow> 'k) \<Rightarrow> 'a list \<Rightarrow> 'k list \<Rightarrow> 'a list \<Rightarrow> 'a list" where
  "baseUniq iteratee [] seen result = result"
| "baseUniq iteratee (v # array) seen result =
     (if iteratee v \<in> set seen then baseUniq iteratee array seen result
      else baseUniq iteratee array (seen @ [iteratee v]) (result @ [v]))"

definition uniqBy :: "'a list \<Rightarrow> ('a \<Rightarrow> 'k) \<Rightarrow> 'a list" where
  "uniqBy array iteratee = baseUniq iteratee array [] []"

section \<open>Reading a trace\<close>

fun isStoreQuery :: "Effect \<Rightarrow> bool" where
  "isStoreQuery GetCalendars = True"
| "isStoreQuery (GetEvents ids a b) = True"
| "isStoreQuery other = False"

fun isGeocoderFrom :: "Effect \<Rightarrow> bool" where
  "isGeocoderFrom (GeocoderFrom address) = True"
| "isGeocoderFrom other = False"

fun isAlert :: "Effect \<Rightarrow> bool" where
  "isAlert (AlertShown a b) = True"
| "isAlert other = False"

fun isLink :: "Effect \<Rightarrow> bool" where
  "isLink (CanOpenURL url) = True"
| "isLink (OpenURL url) = True"
| "isLink other = False"

fun isSetter :: "Effect \<Rightarrow> bool" where
  "isSetter (SetStartDate d) = True"
| "isSetter (SetEndDate d) = True"
| "isSetter (SetShowDatePicker b) = True"
| "isSetter (SetDatePickerType p) = True"
| "isSetter (SetCalendarEvents es) = True"
| "isSetter other = False"

section \<open>Module evaluation\<close>

text \<open>
  Lines 11 to 14: the guard on \<open>process.env.GOOGLE_MAPS_API_KEY\<close>, then
  \<open>Geocoder.init\<close>. The result is the trace of the module's top level and the value
  it threw, if any.
\<close>

definition moduleLoad :: "(string \<rightharpoonup> string) \<Rightarrow> Effect list \<times> Thrown option" where
  "moduleLoad env =
     (case env ''GOOGLE_MAPS_API_KEY'' of
        None \<Rightarrow> ([], Some (ErrorObject ''GOOGLE_MAPS_API_KEY environment variable is required.''))
      | Some k \<Rightarrow>
          if falsy k
          then ([], Some (ErrorObject ''GOOGLE_MAPS_API_KEY environment variable is required.''))
          else ([GeocoderInit k], None))"

text \<open>
  The initial values of the state cells. \<open>now\<close> is \<open>new Date()\<close> and \<open>weekAhead\<close>
  is \<open>addDays(new Date(), 7)\<close>, both read from the clock by the platform.
\<close>

definition initialState :: "date \<Rightarrow> date \<Rightarrow> State" where
  "initialState now weekAhead =
     \<lparr>startDate = now, endDate = weekAhead, showDatePicker = False,
      datePickerType = PickStart,
      region = \<lparr>latitude = -8.5, longitude = 115.2, latitudeDelta = 0.1, longitudeDelta = 0.1\<rparr>,
      calendarEvents = []\<rparr>"

text \<open>
  Starting the program: \<open>App\<close> imports the module of \<open>CalendarMap\<close>, so the
  component is rendered only when the module's top level has run without throwing. The
  first render is the \<open>Some\<close> state.
\<close>

definition startApp :: "(string \<rightharpoonup> string) \<Rightarrow> date \<Rightarrow> date \<Rightarrow> Effect list \<times> Thrown option \<times> State option" where
  "startApp env now weekAhead =
     (case moduleLoad env of
        (t, Some err) \<Rightarrow> (t, Some err, None)
      | (t, None) \<Rightarrow> (t, None, Some (initialState now weekAhead)))"

section \<open>Geocoding\<close>

text \<open>
  \<open>getLocationFromAddress\<close>: one call of \<open>Geocoder.from\<close>; a rejected call and a
  response without candidates (where \<open>response.results[0].geometry\<close> throws a
  TypeError) both land in the \<open>catch\<close>, which warns on the console and returns null.
\<close>

definition getLocationFromAddress :: "(string \<Rightarrow> GeocodeOutcome) \<Rightarrow> string \<Rightarrow> LatLng option \<times> Effect list" where
  "getLocationFromAddress geocoder address =
     (case geocoder address of
        Resolved (loc # others) \<Rightarrow>
          (Some \<lparr>latitude = lat loc, longitude = lng loc\<rparr>, [GeocoderFrom address])
      | Resolved [] \<Rightarrow>
          (None, [GeocoderFrom address, ConsoleWarn ''Error getting location from address:'' address])
      | Rejected \<Rightarrow>
          (None, [GeocoderFrom address, ConsoleWarn ''Error getting location from address:'' address]))"

text \<open>\<open>{ ...event, geoLocation }\<close>\<close>

definition withGeoLocation :: "Event \<Rightarrow> LatLng option \<Rightarrow> EventWithLocation" where
  "withGeoLocation event g =
     \<lparr>id_ev = id_ev event, calendarId = calendarId event, title = title event,
      location = location event, geoLocation = g\<rparr>"

text \<open>
  The callback of \<open>events.map\<close> in \<open>fetchCalendarEvents\<close> (lines 139 to 143), with
  the effects of the one event. \<open>!event.location\<close> holds for null and for the empty
  string.
\<close>

definition geocodeEvent :: "(string \<Rightarrow> GeocodeOutcome) \<Rightarrow> Event \<Rightarrow> EventWithLocation \<times> Effect list" where
  "geocodeEvent geocoder event =
     (case location event of
        None \<Rightarrow> (withGeoLocation event None, [])
      | Some address \<Rightarrow>
          if falsy address then (withGeoLocation event None, [])
          else (case getLocationFromAddress geocoder address of
                  (geo, t) \<Rightarrow> (withGeoLocation event geo, t)))"

text \<open>
  \<open>Promise.all(events.map(...))\<close>: the results in the order of the batch, each with
  the effects of its own event, in the order in which that event causes them.
\<close>

definition geocodeAll :: "World \<Rightarrow> Event list \<Rightarrow> (EventWithLocation \<times> Effect list) list" where
  "geocodeAll w events = map (\<lambda>(i, event). geocodeEvent (Geocoder_from w i) event) (enumerate 0 events)"

definition geocodedEvents :: "World \<Rightarrow> Event list \<Rightarrow> EventWithLocation list" where
  "geocodedEvents w events = map fst (geocodeAll w events)"

section \<open>The fetch cycle\<close>

text \<open>The \<open>catch\<close> of \<open>fetchCalendarEvents\<close> (lines 149 to 155).\<close>

definition catchAlert :: "Thrown \<Rightarrow> Effect" where
  "catchAlert error =
     (case error of
        ErrorObject message \<Rightarrow> AlertShown ''Error fetching calendar events:'' (Some message)
      | OtherThrown \<Rightarrow> AlertShown ''Error fetching calendar events:'' (Some ''An unknown error occurred.''))"

text \<open>
  \<open>fetchCalendarEvents\<close> is a closure of one render: \<open>startDate\<close> and \<open>endDate\<close>
  are the constants of that render, here the fields of \<open>s\<close>.

  \<open>events.map\<close> runs each callback up to its first \<open>await\<close>, so every call of
  \<open>Geocoder.from\<close> is made, in the order of the batch, before any lookup is answered
  and any warning written. The warnings follow when the lookups complete; the trace
  lists them in the order of the batch, and nothing below depends on the order between
  the warnings of different events.
\<close>

definition fetchCalendarEvents :: "World \<Rightarrow> State \<Rightarrow> Effect list" where
  "fetchCalendarEvents w s =
     (case getCalendarsAsync w of
        Inl error \<Rightarrow> [GetCalendars, catchAlert error]
      | Inr calendars \<Rightarrow>
          (case getEventsAsync w (map id_cal calendars) (startDate s) (endDate s) of
             Inl error \<Rightarrow>
               [GetCalendars, GetEvents (map id_cal calendars) (startDate s) (endDate s),
                catchAlert error]
           | Inr events \<Rightarrow>
               [GetCalendars, GetEvents (map id_cal calendars) (startDate s) (endDate s)]
               @ filter isGeocoderFrom (concat (map snd (geocodeAll w events)))
               @ filter (\<lambda>effect. \<not> isGeocoderFrom effect) (concat (map snd (geocodeAll w events)))
               @ [SetCalendarEvents
                    (filter (\<lambda>event. geoLocation event \<noteq> None) (geocodedEvents w events))]))"

section \<open>State updates and handlers\<close>

fun applySetter :: "Effect \<Rightarrow> State \<Rightarrow> State" where
  "applySetter (SetStartDate d) s = s\<lparr>startDate := d\<rparr>"
| "applySetter (SetEndDate d) s = s\<lparr>endDate := d\<rparr>"
| "applySetter (SetShowDatePicker b) s = s\<lparr>showDatePicker := b\<rparr>"
| "applySetter (SetDatePickerType p) s = s\<lparr>datePickerType := p\<rparr>"
| "applySetter (SetCalendarEvents es) s = s\<lparr>calendarEvents := es\<rparr>"
| "applySetter other s = s"

text \<open>The state of the next render: the setter calls of a trace, applied in order.\<close>

definition commit :: "State \<Rightarrow> Effect list \<Rightarrow> State" where
  "commit s t = fold applySetter t s"

text \<open>
  The handlers are closures of the render \<open>s\<close> too. \<open>selectedDate\<close> is
  \<open>Date | undefined\<close>; a \<open>Date\<close> object is always truthy.
\<close>

definition onStartDateChange :: "World \<Rightarrow> State \<Rightarrow> date option \<Rightarrow> Effect list" where
  "onStartDateChange w s selectedDate =
     (case selectedDate of
        Some d \<Rightarrow> [SetStartDate d, SetShowDatePicker False] @ fetchCalendarEvents w s
      | None \<Rightarrow> [SetShowDatePicker False])"

definition onEndDateChange :: "World \<Rightarrow> State \<Rightarrow> date option \<Rightarrow> Effect list" where
  "onEndDateChange w s selectedDate =
     (case selectedDate of
        Some d \<Rightarrow> [SetEndDate d, SetShowDatePicker False] @ fetchCalendarEvents w s
      | None \<Rightarrow> [SetShowDatePicker False])"

definition toggleDatePicker :: "State \<Rightarrow> PickerType \<Rightarrow> Effect list" where
  "toggleDatePicker s type = [SetShowDatePicker (\<not> showDatePicker s), SetDatePickerType type]"

section \<open>Rendering the markers\<close>

definition uniqueCalendarEvents :: "State \<Rightarrow> EventWithLocation list" where
  "uniqueCalendarEvents s = uniqBy (calendarEvents s) id_ev"

text \<open>
  A \<open>Marker\<close> element with its props; \<open>pressed\<close> is the event that its
  \<open>onPress\<close> hands to \<open>onMarkerPress\<close>.
\<close>

record Marker =
  key :: string
  coordinate :: LatLng
  title_marker :: string
  description :: "string option"
  pressed :: EventWithLocation

text \<open>
  Lines 202 to 212: the callback returns null for an event without geo-location, and a
  null child renders nothing.
\<close>

definition renderMarkers :: "State \<Rightarrow> Marker list" where
  "renderMarkers s =
     List.map_filter
       (\<lambda>event. case geoLocation event of
                   Some g \<Rightarrow> Some \<lparr>key = id_ev event, coordinate = g, title_marker = title event,
                                   description = location event, pressed = event\<rparr>
                 | None \<Rightarrow> None)
       (uniqueCalendarEvents s)"

section \<open>Pressing a marker\<close>

text \<open>
  \<open>onMarkerPress\<close>: the trace, and the rejection of the promise it returns when
  \<open>Linking\<close> rejects (there is no \<open>catch\<close>).
\<close>

definition onMarkerPress :: "World \<Rightarrow> EventWithLocation \<Rightarrow> Effect list \<times> Thrown option" where
  "onMarkerPress w event =
     (let eventId = id_ev event;
          calendarID = calendarId event;
          calendarLink = calendarID @ ''&event='' @ eventId
      in if falsy eventId then ([], None)
         else
           (case Platform_select (Platform_OS w)
                   (''calshow:'' @ calendarLink)
                   (''content://com.android.calendar/events/'' @ calendarLink) of
              None \<Rightarrow> ([ConsoleLog ''Opening calendar event:'' calendarLink], None)
            | Some eventUrl \<Rightarrow>
                if falsy eventUrl then ([ConsoleLog ''Opening calendar event:'' calendarLink], None)
                else
                  (case canOpenURL w eventUrl of
                     Inl error \<Rightarrow>
                       ([ConsoleLog ''Opening calendar event:'' calendarLink, CanOpenURL eventUrl],
                        Some error)
                   | Inr supported \<Rightarrow>
                       if supported
                       then ([ConsoleLog ''Opening calendar event:'' calendarLink,
                              CanOpenURL eventUrl, OpenURL eventUrl], openURL w eventUrl)
                       else ([ConsoleLog ''Opening calendar event:'' calendarLink,
                              CanOpenURL eventUrl,
                              AlertShown ''Unable to open the Calendar app.'' None], None))))"

section \<open>The spec's marker set\<close>

text \<open>
  In the spec's words: deduplicated by identifier, preserving first-seen order. The
  event at position \<open>i\<close> of a batch stays exactly when no earlier position of the batch
  holds an event with its identifier.
\<close>

definition firstSeenById :: "EventWithLocation list \<Rightarrow> EventWithLocation list" where
  "firstSeenById batch =
     map (nth batch)
       (filter (\<lambda>i. id_ev (batch ! i) \<notin> id_ev ` set (take i batch)) [0..<length batch])"

section \<open>Concrete inputs\<close>

text \<open>
  The batch of the spec's scenario (section 8), followed by an event whose location is
  the empty string and one whose address has no match.
\<close>

definition ubud :: Event where
  "ubud = \<lparr>id_ev = ''1'', calendarId = ''home'', title = ''Yoga'', location = Some ''Ubud, Bali''\<rparr>"

definition dup :: Event where
  "dup = \<lparr>id_ev = ''1'', calendarId = ''work'', title = ''Yoga'', location = Some ''dup''\<rparr>"

definition nowhere :: Event where
  "nowhere = \<lparr>id_ev = ''2'', calendarId = ''home'', title = ''Call'', location = None\<rparr>"

definition blank :: Event where
  "blank = \<lparr>id_ev = ''3'', calendarId = ''home'', title = ''Lunch'', location = Some []\<rparr>"

definition unmatched :: Event where
  "unmatched = \<lparr>id_ev = ''4'', calendarId = ''home'', title = ''Hike'', location = Some ''Xyzzy''\<rparr>"

definition scenarioEvents :: "Event list" where
  "scenarioEvents = [ubud, dup, nowhere, blank, unmatched]"

text \<open>
  A geocoder that knows one address with two candidates, answers without candidates at
  \<open>Xyzzy\<close> and rejects every other address.
\<close>

definition scenarioGeocoder :: "nat \<Rightarrow> string \<Rightarrow> GeocodeOutcome" where
  "scenarioGeocoder i address =
     (if address = ''Ubud, Bali''
      then Resolved [\<lparr>lat = -8.5069, lng = 115.2625\<rparr>, \<lparr>lat = -8.65, lng = 115.2167\<rparr>]
      else if address = ''Xyzzy'' then Resolved []
      else Rejected)"

definition scenarioWorld :: World where
  "scenarioWorld =
     \<lparr>getCalendarsAsync = Inr [\<lparr>id_cal = ''home'', title_cal = ''Home''\<rparr>,
                              \<lparr>id_cal = ''work'', title_cal = ''Work''\<rparr>],
      getEventsAsync = (\<lambda>ids a b. Inr scenarioEvents),
      Geocoder_from = scenarioGeocoder,
      Platform_OS = Web,
      canOpenURL = (\<lambda>url. Inr True),
      openURL = (\<lambda>url. None)\<rparr>"

text \<open>The same world with a calendar store whose event query fails.\<close>

definition brokenStoreWorld :: "Thrown \<Rightarrow> World" where
  "brokenStoreWorld error = scenarioWorld\<lparr>getEventsAsync := (\<lambda>ids a b. Inl error)\<rparr>"

text \<open>A render with the range of day 0 to day 7 and one event on the map.\<close>

definition scenarioState :: State where
  "scenarioState =
     (initialState 0 604800000)
       \<lparr>calendarEvents :=
          [withGeoLocation unmatched (Some \<lparr>latitude = -8.4, longitude = 115.1\<rparr>)]\<rparr>"

text \<open>
  A batch of three events with one identifier: the first has no location, the two
  others are at the address the geocoder knows.
\<close>

definition shadowedEvents :: "Event list" where
  "shadowedEvents = [dup\<lparr>location := None\<rparr>, ubud, dup\<lparr>location := Some ''Ubud, Bali''\<rparr>]"

definition shadowedWorld :: World where
  "shadowedWorld = scenarioWorld\<lparr>getEventsAsync := (\<lambda>ids a b. Inr shadowedEvents)\<rparr>"

section \<open>Lemmas on the deduplication loop\<close>

lemma baseUniq_result: "baseUniq f xs seen result = result @ baseUniq f xs seen []"
proof (induction xs arbitrary: seen result)
  case Nil
  show ?case by simp
next
  case (Cons x xs)
  have a: "baseUniq f xs (seen @ [f x]) (result @ [x]) = (result @ [x]) @ baseUniq f xs (seen @ [f x]) []"
    by (rule Cons.IH)
  have b: "baseUniq f xs (seen @ [f x]) [x] = [x] @ baseUniq f xs (seen @ [f x]) []"
    using Cons.IH [of "seen @ [f x]" "[x]"] by simp
  show ?case using a b Cons.IH [of seen result] by simp
qed

lemma baseUniq_Cons:
  "baseUniq f (x # xs) seen [] =
     (if f x \<in> set seen then baseUniq f xs seen [] else x # baseUniq f xs (seen @ [f x]) [])"
  using baseUniq_result [of f xs "seen @ [f x]" "[x]"] by simp

lemma baseUniq_keys: "f ` set (baseUniq f xs seen []) = f ` set xs - set seen"
proof (induction xs arbitrary: seen)
  case Nil
  show ?case by simp
next
  case (Cons x xs)
  show ?case by (auto simp: baseUniq_Cons Cons.IH simp del: baseUniq.simps)
qed

lemma baseUniq_distinct: "distinct (map f (baseUniq f xs seen []))"
proof (induction xs arbitrary: seen)
  case Nil
  show ?case by simp
next
  case (Cons x xs)
  have "f x \<notin> f ` set (baseUniq f xs (seen @ [f x]) [])"
    by (simp add: baseUniq_keys)
  then show ?case by (simp add: baseUniq_Cons Cons.IH del: baseUniq.simps)
qed

lemma baseUniq_subseq: "subseq (baseUniq f xs seen []) xs"
proof (induction xs arbitrary: seen)
  case Nil
  show ?case by simp
next
  case (Cons x xs)
  show ?case by (simp add: baseUniq_Cons Cons.IH list_emb_Cons del: baseUniq.simps)
qed

lemma baseUniq_first:
  "e \<in> set (baseUniq f xs seen []) \<Longrightarrow> find (\<lambda>y. f y = f e) xs = Some e"
proof (induction xs arbitrary: seen)
  case Nil
  then show ?case by simp
next
  case (Cons x xs)
  show ?case
  proof (cases "f x \<in> set seen")
    case True
    with Cons.prems have e: "e \<in> set (baseUniq f xs seen [])" by (simp add: baseUniq_Cons del: baseUniq.simps)
    then have "f e \<in> f ` set xs - set seen" using baseUniq_keys [of f xs seen] by blast
    with True have "f x \<noteq> f e" by auto
    then show ?thesis using Cons.IH [OF e] by simp
  next
    case False
    show ?thesis
    proof (cases "e = x")
      case True
      then show ?thesis by simp
    next
      case ne: False
      with False Cons.prems have e: "e \<in> set (baseUniq f xs (seen @ [f x]) [])"
        by (simp add: baseUniq_Cons del: baseUniq.simps)
      then have "f e \<in> f ` set xs - set (seen @ [f x])"
        using baseUniq_keys [of f xs "seen @ [f x]"] by blast
      then have "f x \<noteq> f e" by auto
      then show ?thesis using Cons.IH [OF e] by simp
    qed
  qed
qed

lemma first_index_Cons:
  "map (nth (x # xs))
     (filter (\<lambda>i. f ((x # xs) ! i) \<notin> S \<union> f ` set (take i (x # xs))) [0..<length (x # xs)]) =
   (if f x \<in> S then [] else [x]) @
   map (nth xs) (filter (\<lambda>i. f (xs ! i) \<notin> insert (f x) S \<union> f ` set (take i xs)) [0..<length xs])"
proof -
  have upt: "[0..<length (x # xs)] = 0 # map Suc [0..<length xs]"
    by (simp add: upt_conv_Cons map_Suc_upt del: upt_Suc)
  have "filter ((\<lambda>i. f ((x # xs) ! i) \<notin> S \<union> f ` set (take i (x # xs))) \<circ> Suc) [0..<length xs] =
        filter (\<lambda>i. f (xs ! i) \<notin> insert (f x) S \<union> f ` set (take i xs)) [0..<length xs]"
    by (intro filter_cong refl) auto
  then show ?thesis
    unfolding upt by (simp add: filter_map del: upt_Suc)
qed

lemma baseUniq_index_gen:
  "set seen = S \<Longrightarrow>
   baseUniq f xs seen [] =
     map (nth xs) (filter (\<lambda>i. f (xs ! i) \<notin> S \<union> f ` set (take i xs)) [0..<length xs])"
proof (induction xs arbitrary: seen S)
  case Nil
  show ?case by simp
next
  case (Cons x xs)
  show ?case
  proof (cases "f x \<in> S")
    case True
    then have "insert (f x) S = S" by auto
    with True Cons.prems Cons.IH [of seen S] show ?thesis
      unfolding first_index_Cons by (simp add: baseUniq_Cons del: baseUniq.simps)
  next
    case False
    have "set (seen @ [f x]) = insert (f x) S" using Cons.prems by simp
    from Cons.IH [OF this] False Cons.prems show ?thesis
      unfolding first_index_Cons by (simp add: baseUniq_Cons del: baseUniq.simps)
  qed
qed

section \<open>Lemmas on the fetch cycle and the rendering\<close>

lemma geocodeEvent_effects:
  "x \<in> set (snd (geocodeEvent g e)) \<Longrightarrow> \<not> isSetter x \<and> \<not> isAlert x \<and> \<not> isStoreQuery x \<and> \<not> isLink x"
  by (auto simp: geocodeEvent_def getLocationFromAddress_def
      split: option.splits if_splits GeocodeOutcome.splits list.splits)

lemma geocodeAll_effects:
  assumes "x \<in> set (concat (map snd (geocodeAll w events)))"
  shows "\<not> isSetter x \<and> \<not> isAlert x \<and> \<not> isStoreQuery x \<and> \<not> isLink x"
proof -
  from assms obtain i e where "x \<in> set (snd (geocodeEvent (Geocoder_from w i) e))"
    by (auto simp: geocodeAll_def)
  then show ?thesis by (rule geocodeEvent_effects)
qed

lemma commit_no_setter: "(\<And>x. x \<in> set t \<Longrightarrow> \<not> isSetter x) \<Longrightarrow> commit s t = s"
proof (induction t arbitrary: s)
  case Nil
  show ?case by (simp add: commit_def)
next
  case (Cons a t)
  have "\<not> isSetter a" using Cons.prems by simp
  then have "applySetter a s = s" by (cases a) simp_all
  moreover have "commit s t = s" using Cons.prems by (intro Cons.IH) simp
  ultimately show ?case by (simp add: commit_def)
qed

lemma commit_append: "commit s (t @ u) = commit (commit s t) u"
  by (simp add: commit_def)

lemma fetch_success:
  assumes "getCalendarsAsync w = Inr calendars"
    and "getEventsAsync w (map id_cal calendars) (startDate s) (endDate s) = Inr events"
  shows "fetchCalendarEvents w s =
           [GetCalendars, GetEvents (map id_cal calendars) (startDate s) (endDate s)]
           @ filter isGeocoderFrom (concat (map snd (geocodeAll w events)))
           @ filter (\<lambda>effect. \<not> isGeocoderFrom effect) (concat (map snd (geocodeAll w events)))
           @ [SetCalendarEvents (filter (\<lambda>event. geoLocation event \<noteq> None) (geocodedEvents w events))]"
  using assms by (simp add: fetchCalendarEvents_def)

lemma commit_fetch_success:
  assumes "getCalendarsAsync w = Inr calendars"
    and "getEventsAsync w (map id_cal calendars) (startDate s) (endDate s) = Inr events"
  shows "commit s (fetchCalendarEvents w s) =
           s\<lparr>calendarEvents := filter (\<lambda>event. geoLocation event \<noteq> None) (geocodedEvents w events)\<rparr>"
proof -
  have "commit s (filter P (concat (map snd (geocodeAll w events)))) = s" for P
  proof (rule commit_no_setter)
    fix x
    assume "x \<in> set (filter P (concat (map snd (geocodeAll w events))))"
    then have "x \<in> set (concat (map snd (geocodeAll w events)))"
      by (simp del: set_concat)
    then show "\<not> isSetter x"
      by (simp add: geocodeAll_effects del: set_concat)
  qed
  then show ?thesis
    unfolding fetch_success [OF assms] commit_append by (simp add: commit_def)
qed

lemma filter_trace_fetch_success:
  assumes "getCalendarsAsync w = Inr calendars"
    and "getEventsAsync w (map id_cal calendars) (startDate s) (endDate s) = Inr events"
  shows "filter isAlert (fetchCalendarEvents w s) = []"
    and "filter isStoreQuery (fetchCalendarEvents w s) =
           [GetCalendars, GetEvents (map id_cal calendars) (startDate s) (endDate s)]"
proof -
  have a: "filter isAlert (filter P (concat (map snd (geocodeAll w events)))) = []" for P
    by (simp add: filter_empty_conv geocodeAll_effects del: set_concat)
  have b: "filter isStoreQuery (filter P (concat (map snd (geocodeAll w events)))) = []" for P
    by (simp add: filter_empty_conv geocodeAll_effects del: set_concat)
  show "filter isAlert (fetchCalendarEvents w s) = []"
    unfolding fetch_success [OF assms] using a by simp
  show "filter isStoreQuery (fetchCalendarEvents w s) =
           [GetCalendars, GetEvents (map id_cal calendars) (startDate s) (endDate s)]"
    unfolding fetch_success [OF assms] using b by simp
qed

lemma geocodeAll_nth:
  "i < length events \<Longrightarrow> geocodeAll w events ! i = geocodeEvent (Geocoder_from w i) (events ! i)"
  by (simp add: geocodeAll_def nth_enumerate_eq)

lemma geocodedEvents_nth:
  "i < length events \<Longrightarrow> geocodedEvents w events ! i = fst (geocodeEvent (Geocoder_from w i) (events ! i))"
  by (simp add: geocodedEvents_def geocodeAll_def nth_enumerate_eq)

lemma uniqBy_index: "uniqBy batch id_ev = firstSeenById batch"
  unfolding uniqBy_def firstSeenById_def
  using baseUniq_index_gen [of "[]" "{}" id_ev batch] by simp

lemma map_pressed_renderMarkers:
  "map pressed (renderMarkers s) = filter (\<lambda>event. geoLocation event \<noteq> None) (uniqueCalendarEvents s)"
proof -
  have "map pressed (List.map_filter
       (\<lambda>event. case geoLocation event of
                   Some g \<Rightarrow> Some \<lparr>key = id_ev event, coordinate = g, title_marker = title event,
                                   description = location event, pressed = event\<rparr>
                 | None \<Rightarrow> None) xs) = filter (\<lambda>event. geoLocation event \<noteq> None) xs" for xs
    by (induction xs) (auto simp: List.map_filter_simps split: option.splits)
  then show ?thesis by (simp add: renderMarkers_def)
qed

lemma baseUniq_subset: "set (baseUniq f xs seen []) \<subseteq> set xs"
proof (induction xs arbitrary: seen)
  case Nil
  show ?case by simp
next
  case (Cons x xs)
  show ?case using Cons.IH [of seen] Cons.IH [of "seen @ [f x]"]
    by (auto simp: baseUniq_Cons simp del: baseUniq.simps)
qed

lemma filter_uniqBy_filter:
  "filter P (uniqBy (filter P xs) f) = uniqBy (filter P xs) f"
  using baseUniq_subset [of f "filter P xs" "[]"] by (auto simp: uniqBy_def filter_id_conv)

lemma marker_props:
  "m \<in> set (renderMarkers s) \<Longrightarrow>
     geoLocation (pressed m) = Some (coordinate m) \<and> key m = id_ev (pressed m)
     \<and> title_marker m = title (pressed m) \<and> description m = location (pressed m)"
  by (auto simp: renderMarkers_def List.map_filter_def split: option.splits)

lemma geocodeEvent_lookups:
  "filter isGeocoderFrom (snd (geocodeEvent g e)) =
     (case location e of None \<Rightarrow> [] | Some address \<Rightarrow> if falsy address then [] else [GeocoderFrom address])"
  by (simp add: geocodeEvent_def getLocationFromAddress_def
      split: option.splits GeocodeOutcome.splits list.splits)

lemma geocodeAll_lookups_gen:
  "filter isGeocoderFrom (concat (map snd (map (\<lambda>(i, event). geocodeEvent (g i) event) (enumerate n events)))) =
     concat (map (\<lambda>event. case location event of None \<Rightarrow> []
                 | Some address \<Rightarrow> if falsy address then [] else [GeocoderFrom address]) events)"
  by (induction events arbitrary: n) (simp_all add: geocodeEvent_lookups)

lemma geocodeAll_lookups:
  "filter isGeocoderFrom (concat (map snd (geocodeAll w events))) =
     concat (map (\<lambda>event. case location event of None \<Rightarrow> []
                 | Some address \<Rightarrow> if falsy address then [] else [GeocoderFrom address]) events)"
  unfolding geocodeAll_def by (rule geocodeAll_lookups_gen)

lemma geocodeAll_scenario:
  "geocodeAll scenarioWorld scenarioEvents =
     [(withGeoLocation ubud (Some \<lparr>latitude = -8.5069, longitude = 115.2625\<rparr>), [GeocoderFrom ''Ubud, Bali'']),
      (withGeoLocation dup None, [GeocoderFrom ''dup'', ConsoleWarn ''Error getting location from address:'' ''dup'']),
      (withGeoLocation nowhere None, []),
      (withGeoLocation blank None, []),
      (withGeoLocation unmatched None, [GeocoderFrom ''Xyzzy'', ConsoleWarn ''Error getting location from address:'' ''Xyzzy''])]"
  by (simp add: geocodeAll_def geocodeEvent_def getLocationFromAddress_def falsy_def
      scenarioWorld_def scenarioEvents_def scenarioGeocoder_def ubud_def dup_def nowhere_def blank_def unmatched_def)

lemma fetch_scenario:
  "fetchCalendarEvents scenarioWorld scenarioState =
     [GetCalendars, GetEvents [''home'', ''work''] 0 604800000,
      GeocoderFrom ''Ubud, Bali'', GeocoderFrom ''dup'', GeocoderFrom ''Xyzzy'',
      ConsoleWarn ''Error getting location from address:'' ''dup'',
      ConsoleWarn ''Error getting location from address:'' ''Xyzzy'',
      SetCalendarEvents [withGeoLocation ubud (Some \<lparr>latitude = -8.5069, longitude = 115.2625\<rparr>)]]"
proof -
  have c: "getCalendarsAsync scenarioWorld = Inr [\<lparr>id_cal = ''home'', title_cal = ''Home''\<rparr>,
                              \<lparr>id_cal = ''work'', title_cal = ''Work''\<rparr>]"
    by (simp add: scenarioWorld_def)
  have e: "getEventsAsync scenarioWorld (map id_cal [\<lparr>id_cal = ''home'', title_cal = ''Home''\<rparr>,
                              \<lparr>id_cal = ''work'', title_cal = ''Work''\<rparr>]) (startDate scenarioState) (endDate scenarioState) = Inr scenarioEvents"
    by (simp add: scenarioWorld_def)
  have d: "startDate scenarioState = 0" "endDate scenarioState = 604800000"
    by (simp_all add: scenarioState_def initialState_def)
  show ?thesis
    unfolding fetch_success [OF c e] geocodedEvents_def geocodeAll_scenario d
    by (simp add: withGeoLocation_def)
qed

text \<open>
  What line 163 does with any list it is given: it keeps exactly the events at a
  position with no earlier event of the same identifier.
\<close>

lemma uniqueCalendarEvents_first_occurrences:
  "uniqueCalendarEvents s = firstSeenById (calendarEvents s)
   \<and> distinct (map id_ev (uniqueCalendarEvents s))
   \<and> subseq (uniqueCalendarEvents s) (calendarEvents s)
   \<and> id_ev ` set (uniqueCalendarEvents s) = id_ev ` set (calendarEvents s)
   \<and> (\<forall>e \<in> set (uniqueCalendarEvents s).
         find (\<lambda>y. id_ev y = id_ev e) (calendarEvents s) = Some e)
   \<and> (calendarEvents s = [a, b] \<and> id_ev a = id_ev b \<longrightarrow> uniqueCalendarEvents s = [a])"
proof -
  have 1: "uniqueCalendarEvents s = firstSeenById (calendarEvents s)"
    by (simp add: uniqueCalendarEvents_def uniqBy_index)
  have 2: "distinct (map id_ev (uniqueCalendarEvents s))"
    unfolding uniqueCalendarEvents_def uniqBy_def by (rule baseUniq_distinct)
  have 3: "subseq (uniqueCalendarEvents s) (calendarEvents s)"
    unfolding uniqueCalendarEvents_def uniqBy_def by (rule baseUniq_subseq)
  have 4: "id_ev ` set (uniqueCalendarEvents s) = id_ev ` set (calendarEvents s)"
    unfolding uniqueCalendarEvents_def uniqBy_def by (simp add: baseUniq_keys)
  have 5: "\<forall>e \<in> set (uniqueCalendarEvents s).
         find (\<lambda>y. id_ev y = id_ev e) (calendarEvents s) = Some e"
    unfolding uniqueCalendarEvents_def uniqBy_def by (blast intro: baseUniq_first)
  have 6: "calendarEvents s = [a, b] \<and> id_ev a = id_ev b \<longrightarrow> uniqueCalendarEvents s = [a]"
    by (simp add: uniqueCalendarEvents_def uniqBy_def)
  from 1 2 3 4 5 6 show ?thesis by blast
qed

lemma find_filter_conj: "find P (filter Q xs) = find (\<lambda>y. Q y \<and> P y) xs"
  by (induction xs) simp_all

lemma geocodedEvents_shadowed:
  "geocodedEvents shadowedWorld shadowedEvents =
     [withGeoLocation (dup\<lparr>location := None\<rparr>) None,
      withGeoLocation ubud (Some \<lparr>latitude = -8.5069, longitude = 115.2625\<rparr>),
      withGeoLocation (dup\<lparr>location := Some ''Ubud, Bali''\<rparr>)
        (Some \<lparr>latitude = -8.5069, longitude = 115.2625\<rparr>)]"
  by (simp add: geocodedEvents_def geocodeAll_def geocodeEvent_def getLocationFromAddress_def
      falsy_def shadowedWorld_def shadowedEvents_def scenarioWorld_def scenarioGeocoder_def
      ubud_def dup_def)

lemma shadowedWorld_store:
  "getCalendarsAsync shadowedWorld =
     Inr [\<lparr>id_cal = ''home'', title_cal = ''Home''\<rparr>, \<lparr>id_cal = ''work'', title_cal = ''Work''\<rparr>]"
  "getEventsAsync shadowedWorld ids a b = Inr shadowedEvents"
  by (simp_all add: shadowedWorld_def scenarioWorld_def)

text \<open>
  The order of the two steps shows when the first event of an identifier has no
  location and a later one has: the filter runs first, so the later one is the first
  that the deduplication sees, and it gets the marker.
\<close>

lemma located_duplicate_gets_the_marker:
  "map pressed
     (renderMarkers
        (commit scenarioState
           (fetchCalendarEvents
              (scenarioWorld\<lparr>getEventsAsync := (\<lambda>ids a b. Inr [dup\<lparr>location := None\<rparr>, ubud])\<rparr>)
              scenarioState))) =
   [withGeoLocation ubud (Some \<lparr>latitude = -8.5069, longitude = 115.2625\<rparr>)]"
proof -
  let ?w = "scenarioWorld\<lparr>getEventsAsync := (\<lambda>ids a b. Inr [dup\<lparr>location := None\<rparr>, ubud])\<rparr>"
  have "commit scenarioState (fetchCalendarEvents ?w scenarioState) =
          scenarioState\<lparr>calendarEvents :=
            [withGeoLocation ubud (Some \<lparr>latitude = -8.5069, longitude = 115.2625\<rparr>)]\<rparr>"
    by (simp add: fetchCalendarEvents_def commit_def geocodedEvents_def geocodeAll_def
        geocodeEvent_def getLocationFromAddress_def falsy_def withGeoLocation_def
        scenarioWorld_def scenarioGeocoder_def ubud_def dup_def)
  then show ?thesis
    by (simp add: map_pressed_renderMarkers uniqueCalendarEvents_def uniqBy_def withGeoLocation_def)
qed

section \<open>The claims\<close>

text \<open>
  C1. The spec says that a confirmed change of a date boundary triggers exactly one fetch
  cycle, and that the fetch queries the store with the new boundary and the unchanged
  other one. The handler calls the setter and then \<open>fetchCalendarEvents\<close> of the same
  render, whose \<open>startDate\<close> is still the old one: in the scenario, picking day 1 as
  the start queries the store once, for day 0 to day 7, while the next state holds day 1;
  picking day 3 as the end queries for day 0 to day 7 as well.
\<close>

theorem start_date_change_fetches_with_stale_start:
  "onStartDateChange scenarioWorld scenarioState (Some 86400000) =
     [SetStartDate 86400000, SetShowDatePicker False,
      GetCalendars, GetEvents [''home'', ''work''] 0 604800000,
      GeocoderFrom ''Ubud, Bali'', GeocoderFrom ''dup'', GeocoderFrom ''Xyzzy'',
      ConsoleWarn ''Error getting location from address:'' ''dup'',
      ConsoleWarn ''Error getting location from address:'' ''Xyzzy'',
      SetCalendarEvents [withGeoLocation ubud (Some \<lparr>latitude = -8.5069, longitude = 115.2625\<rparr>)]]
   \<and> startDate (commit scenarioState (onStartDateChange scenarioWorld scenarioState (Some 86400000))) = 86400000
   \<and> filter isStoreQuery (onEndDateChange scenarioWorld scenarioState (Some 259200000)) =
       [GetCalendars, GetEvents [''home'', ''work''] 0 604800000]
   \<and> endDate (commit scenarioState (onEndDateChange scenarioWorld scenarioState (Some 259200000))) = 259200000"
  by (simp add: onStartDateChange_def onEndDateChange_def fetch_scenario commit_def)

text \<open>
  C2. After a fetch that the store answers, the events behind the rendered markers are
  the events of the enriched batch with a geo-location, of which only the first per
  identifier remains, in the order of the batch.
\<close>

theorem rendered_markers_are_located_first_seen:
  assumes "getCalendarsAsync w = Inr calendars"
    and "getEventsAsync w (map id_cal calendars) (startDate s) (endDate s) = Inr events"
  shows "map pressed (renderMarkers (commit s (fetchCalendarEvents w s))) =
           firstSeenById (filter (\<lambda>event. geoLocation event \<noteq> None) (geocodedEvents w events))
         \<and> (\<forall>m \<in> set (renderMarkers (commit s (fetchCalendarEvents w s))).
               geoLocation (pressed m) = Some (coordinate m) \<and> key m = id_ev (pressed m))"
proof -
  let ?located = "filter (\<lambda>event. geoLocation event \<noteq> None) (geocodedEvents w events)"
  have "calendarEvents (commit s (fetchCalendarEvents w s)) = ?located"
    by (simp add: commit_fetch_success [OF assms])
  then have "map pressed (renderMarkers (commit s (fetchCalendarEvents w s))) =
        filter (\<lambda>event. geoLocation event \<noteq> None) (uniqBy ?located id_ev)"
    by (simp only: map_pressed_renderMarkers uniqueCalendarEvents_def)
  also have "\<dots> = uniqBy ?located id_ev"
    by (rule filter_uniqBy_filter)
  also have "\<dots> = firstSeenById ?located"
    by (rule uniqBy_index)
  finally have "map pressed (renderMarkers (commit s (fetchCalendarEvents w s))) =
        firstSeenById ?located" .
  then show ?thesis by (simp add: marker_props)
qed

theorem rendered_markers_are_located_first_seen_witness:
  "getCalendarsAsync scenarioWorld =
     Inr [\<lparr>id_cal = ''home'', title_cal = ''Home''\<rparr>, \<lparr>id_cal = ''work'', title_cal = ''Work''\<rparr>]
   \<and> getEventsAsync scenarioWorld [''home'', ''work''] 0 604800000 = Inr scenarioEvents
   \<and> map pressed (renderMarkers (commit scenarioState (fetchCalendarEvents scenarioWorld scenarioState))) =
       [withGeoLocation ubud (Some \<lparr>latitude = -8.5069, longitude = 115.2625\<rparr>)]"
proof -
  have c: "getCalendarsAsync scenarioWorld =
     Inr [\<lparr>id_cal = ''home'', title_cal = ''Home''\<rparr>, \<lparr>id_cal = ''work'', title_cal = ''Work''\<rparr>]"
    by (simp add: scenarioWorld_def)
  have e: "getEventsAsync scenarioWorld
             (map id_cal [\<lparr>id_cal = ''home'', title_cal = ''Home''\<rparr>, \<lparr>id_cal = ''work'', title_cal = ''Work''\<rparr>])
             (startDate scenarioState) (endDate scenarioState) = Inr scenarioEvents"
    by (simp add: scenarioWorld_def)
  have g: "filter (\<lambda>event. geoLocation event \<noteq> None) (geocodedEvents scenarioWorld scenarioEvents) =
        [withGeoLocation ubud (Some \<lparr>latitude = -8.5069, longitude = 115.2625\<rparr>)]"
    by (simp add: geocodedEvents_def geocodeAll_scenario withGeoLocation_def)
  show ?thesis
    using rendered_markers_are_located_first_seen [OF c e] c e
    unfolding g by (simp add: firstSeenById_def scenarioWorld_def)
qed

text \<open>
  C3. The spec says that events with a null geo-location are left out of the markers but
  stay in the committed event state. The second half fails: in the scenario the event
  without location is in the enriched batch and not in the state after the fetch.
\<close>

theorem null_geo_event_missing_from_state_counterexample:
  "withGeoLocation nowhere None \<in> set (geocodedEvents scenarioWorld scenarioEvents)
   \<and> geoLocation (withGeoLocation nowhere None) = None
   \<and> withGeoLocation nowhere None \<notin>
       set (calendarEvents (commit scenarioState (fetchCalendarEvents scenarioWorld scenarioState)))"
  by (simp add: fetch_scenario commit_def geocodedEvents_def geocodeAll_scenario withGeoLocation_def)

text \<open>
  C3 as the code has it: \<open>fetchCalendarEvents\<close> filters before it calls
  \<open>setCalendarEvents\<close>, so the committed state is the enriched batch without its
  null-geo events, and such an event is neither in the state nor behind a marker.
\<close>

theorem null_geo_events_dropped_before_commit:
  assumes "getCalendarsAsync w = Inr calendars"
    and "getEventsAsync w (map id_cal calendars) (startDate s) (endDate s) = Inr events"
  shows "calendarEvents (commit s (fetchCalendarEvents w s)) =
           filter (\<lambda>event. geoLocation event \<noteq> None) (geocodedEvents w events)
         \<and> (\<forall>e \<in> set (geocodedEvents w events). geoLocation e = None \<longrightarrow>
               e \<notin> set (calendarEvents (commit s (fetchCalendarEvents w s)))
               \<and> e \<notin> pressed ` set (renderMarkers (commit s (fetchCalendarEvents w s))))"
proof -
  let ?s' = "commit s (fetchCalendarEvents w s)"
  have st: "calendarEvents ?s' = filter (\<lambda>event. geoLocation event \<noteq> None) (geocodedEvents w events)"
    by (simp add: commit_fetch_success [OF assms])
  have mk: "e \<notin> pressed ` set (renderMarkers ?s')" if "geoLocation e = None" for e
    using that marker_props [of _ ?s'] by force
  have "e \<notin> set (calendarEvents ?s')" if "geoLocation e = None" for e
    using that unfolding st by simp
  with st mk show ?thesis by blast
qed

theorem null_geo_events_dropped_before_commit_witness:
  "getCalendarsAsync scenarioWorld =
     Inr [\<lparr>id_cal = ''home'', title_cal = ''Home''\<rparr>, \<lparr>id_cal = ''work'', title_cal = ''Work''\<rparr>]
   \<and> getEventsAsync scenarioWorld [''home'', ''work''] 0 604800000 = Inr scenarioEvents
   \<and> withGeoLocation dup None \<in> set (geocodedEvents scenarioWorld scenarioEvents)
   \<and> geoLocation (withGeoLocation dup None) = None
   \<and> calendarEvents (commit scenarioState (fetchCalendarEvents scenarioWorld scenarioState)) =
       [withGeoLocation ubud (Some \<lparr>latitude = -8.5069, longitude = 115.2625\<rparr>)]
   \<and> withGeoLocation dup None \<notin>
       pressed ` set (renderMarkers (commit scenarioState (fetchCalendarEvents scenarioWorld scenarioState)))"
proof -
  have c: "getCalendarsAsync scenarioWorld =
     Inr [\<lparr>id_cal = ''home'', title_cal = ''Home''\<rparr>, \<lparr>id_cal = ''work'', title_cal = ''Work''\<rparr>]"
    by (simp add: scenarioWorld_def)
  have e: "getEventsAsync scenarioWorld
             (map id_cal [\<lparr>id_cal = ''home'', title_cal = ''Home''\<rparr>, \<lparr>id_cal = ''work'', title_cal = ''Work''\<rparr>])
             (startDate scenarioState) (endDate scenarioState) = Inr scenarioEvents"
    by (simp add: scenarioWorld_def)
  have e': "getEventsAsync scenarioWorld [''home'', ''work''] 0 604800000 = Inr scenarioEvents"
    by (simp add: scenarioWorld_def)
  have m: "withGeoLocation dup None \<in> set (geocodedEvents scenarioWorld scenarioEvents)"
    by (simp add: geocodedEvents_def geocodeAll_scenario)
  have n: "geoLocation (withGeoLocation dup None) = None"
    by (simp add: withGeoLocation_def)
  have g: "filter (\<lambda>event. geoLocation event \<noteq> None) (geocodedEvents scenarioWorld scenarioEvents) =
        [withGeoLocation ubud (Some \<lparr>latitude = -8.5069, longitude = 115.2625\<rparr>)]"
    by (simp add: geocodedEvents_def geocodeAll_scenario withGeoLocation_def)
  from null_geo_events_dropped_before_commit [OF c e]
  have st: "calendarEvents (commit scenarioState (fetchCalendarEvents scenarioWorld scenarioState)) =
       [withGeoLocation ubud (Some \<lparr>latitude = -8.5069, longitude = 115.2625\<rparr>)]"
    and out: "withGeoLocation dup None \<notin>
       pressed ` set (renderMarkers (commit scenarioState (fetchCalendarEvents scenarioWorld scenarioState)))"
    unfolding g using m n by blast+
  from c e' m n st out show ?thesis by blast
qed

text \<open>
  C4. When the store fails in a fetch cycle (listing the calendars or querying the
  events), one alert is shown, with the message of the error when an \<open>Error\<close> was
  thrown and with the unknown-error message otherwise; no setter is called and the state,
  with its event set, stays as it was.
\<close>

theorem store_failure_alerts_and_keeps_events:
  assumes "getCalendarsAsync w = Inl error
           \<or> (getCalendarsAsync w = Inr calendars
              \<and> getEventsAsync w (map id_cal calendars) (startDate s) (endDate s) = Inl error)"
  shows "filter isAlert (fetchCalendarEvents w s) =
           [AlertShown ''Error fetching calendar events:''
              (Some (case error of ErrorObject message \<Rightarrow> message
                                 | OtherThrown \<Rightarrow> ''An unknown error occurred.''))]
         \<and> filter isSetter (fetchCalendarEvents w s) = []
         \<and> commit s (fetchCalendarEvents w s) = s
         \<and> calendarEvents (commit s (fetchCalendarEvents w s)) = calendarEvents s"
  using assms
  by (auto simp: fetchCalendarEvents_def catchAlert_def commit_def split: Thrown.splits)

theorem store_failure_alerts_and_keeps_events_witness:
  "getCalendarsAsync (brokenStoreWorld (ErrorObject ''Calendar access lost'')) =
     Inr [\<lparr>id_cal = ''home'', title_cal = ''Home''\<rparr>, \<lparr>id_cal = ''work'', title_cal = ''Work''\<rparr>]
   \<and> getEventsAsync (brokenStoreWorld (ErrorObject ''Calendar access lost'')) [''home'', ''work''] 0 604800000 =
       Inl (ErrorObject ''Calendar access lost'')
   \<and> filter isAlert (fetchCalendarEvents (brokenStoreWorld (ErrorObject ''Calendar access lost'')) scenarioState) =
       [AlertShown ''Error fetching calendar events:'' (Some ''Calendar access lost'')]
   \<and> filter isAlert (fetchCalendarEvents (brokenStoreWorld OtherThrown) scenarioState) =
       [AlertShown ''Error fetching calendar events:'' (Some ''An unknown error occurred.'')]
   \<and> calendarEvents (commit scenarioState
         (fetchCalendarEvents (brokenStoreWorld (ErrorObject ''Calendar access lost'')) scenarioState)) =
       [withGeoLocation unmatched (Some \<lparr>latitude = -8.4, longitude = 115.1\<rparr>)]
   \<and> calendarEvents (commit scenarioState (fetchCalendarEvents (brokenStoreWorld OtherThrown) scenarioState)) =
       [withGeoLocation unmatched (Some \<lparr>latitude = -8.4, longitude = 115.1\<rparr>)]"
proof -
  have c: "getCalendarsAsync (brokenStoreWorld err) =
     Inr [\<lparr>id_cal = ''home'', title_cal = ''Home''\<rparr>, \<lparr>id_cal = ''work'', title_cal = ''Work''\<rparr>]" for err
    by (simp add: brokenStoreWorld_def scenarioWorld_def)
  have e: "getEventsAsync (brokenStoreWorld err) ids a b = Inl err" for err ids a b
    by (simp add: brokenStoreWorld_def)
  have h: "getCalendarsAsync (brokenStoreWorld err) = Inl err
           \<or> (getCalendarsAsync (brokenStoreWorld err) =
                 Inr [\<lparr>id_cal = ''home'', title_cal = ''Home''\<rparr>, \<lparr>id_cal = ''work'', title_cal = ''Work''\<rparr>]
              \<and> getEventsAsync (brokenStoreWorld err)
                   (map id_cal [\<lparr>id_cal = ''home'', title_cal = ''Home''\<rparr>, \<lparr>id_cal = ''work'', title_cal = ''Work''\<rparr>])
                   (startDate scenarioState) (endDate scenarioState) = Inl err)" for err
    using c e by simp
  have s: "calendarEvents scenarioState = [withGeoLocation unmatched (Some \<lparr>latitude = -8.4, longitude = 115.1\<rparr>)]"
    by (simp add: scenarioState_def)
  show ?thesis
    using store_failure_alerts_and_keeps_events [OF h [of "ErrorObject ''Calendar access lost''"]]
      store_failure_alerts_and_keeps_events [OF h [of OtherThrown]] c e s
    by simp
qed

text \<open>
  C5. An event of the fetched batch whose location is null or the empty string causes
  no call of the geocoder, and its enriched geo-location is null.
\<close>

theorem no_location_no_geocode:
  assumes "i < length events"
    and "location (events ! i) = None \<or> location (events ! i) = Some []"
  shows "geoLocation (geocodedEvents w events ! i) = None
         \<and> snd (geocodeAll w events ! i) = []
         \<and> geocodedEvents w events ! i = withGeoLocation (events ! i) None"
  using assms
  by (auto simp: geocodedEvents_nth geocodeAll_nth geocodeEvent_def falsy_def withGeoLocation_def)

theorem no_location_no_geocode_witness:
  "(2::nat) < length scenarioEvents \<and> location (scenarioEvents ! 2) = None
   \<and> (3::nat) < length scenarioEvents \<and> location (scenarioEvents ! 3) = Some []
   \<and> geoLocation (geocodedEvents scenarioWorld scenarioEvents ! 2) = None
   \<and> snd (geocodeAll scenarioWorld scenarioEvents ! 2) = []
   \<and> geoLocation (geocodedEvents scenarioWorld scenarioEvents ! 3) = None
   \<and> snd (geocodeAll scenarioWorld scenarioEvents ! 3) = []"
proof -
  have l: "(2::nat) < length scenarioEvents" "(3::nat) < length scenarioEvents"
    by (simp_all add: scenarioEvents_def)
  have a: "location (scenarioEvents ! 2) = None"
    by (simp add: scenarioEvents_def nowhere_def)
  have b: "location (scenarioEvents ! 3) = Some []"
    by (simp add: scenarioEvents_def blank_def)
  show ?thesis
    using no_location_no_geocode [OF l(1) disjI1, OF a, of scenarioWorld]
      no_location_no_geocode [OF l(2) disjI2, OF b, of scenarioWorld] l a b
    by (simp add: withGeoLocation_def)
qed

text \<open>
  C6. The spec says that the deduplication of the enriched batch keeps, for every
  identifier, the first occurrence with that identifier. The list that line 163
  deduplicates is the committed state, the enriched batch after the filter of line 146.
  In a batch of three events with one identifier, of which the first has no location,
  the first occurrence of the identifier in the enriched batch is the event without
  geo-location, and the one event that survives is the second.
\<close>

theorem first_occurrence_in_enriched_batch_dropped_counterexample:
  "geocodedEvents shadowedWorld shadowedEvents =
     [withGeoLocation (dup\<lparr>location := None\<rparr>) None,
      withGeoLocation ubud (Some \<lparr>latitude = -8.5069, longitude = 115.2625\<rparr>),
      withGeoLocation (dup\<lparr>location := Some ''Ubud, Bali''\<rparr>)
        (Some \<lparr>latitude = -8.5069, longitude = 115.2625\<rparr>)]
   \<and> id_ev (withGeoLocation (dup\<lparr>location := None\<rparr>) None) =
       id_ev (withGeoLocation ubud (Some \<lparr>latitude = -8.5069, longitude = 115.2625\<rparr>))
   \<and> find (\<lambda>y. id_ev y = ''1'') (geocodedEvents shadowedWorld shadowedEvents) =
       Some (withGeoLocation (dup\<lparr>location := None\<rparr>) None)
   \<and> firstSeenById (geocodedEvents shadowedWorld shadowedEvents) =
       [withGeoLocation (dup\<lparr>location := None\<rparr>) None]
   \<and> uniqueCalendarEvents (commit scenarioState (fetchCalendarEvents shadowedWorld scenarioState)) =
       [withGeoLocation ubud (Some \<lparr>latitude = -8.5069, longitude = 115.2625\<rparr>)]
   \<and> withGeoLocation (dup\<lparr>location := None\<rparr>) None \<noteq>
       withGeoLocation ubud (Some \<lparr>latitude = -8.5069, longitude = 115.2625\<rparr>)"
proof -
  have s: "commit scenarioState (fetchCalendarEvents shadowedWorld scenarioState) =
      scenarioState\<lparr>calendarEvents :=
        filter (\<lambda>event. geoLocation event \<noteq> None) (geocodedEvents shadowedWorld shadowedEvents)\<rparr>"
    by (rule commit_fetch_success) (rule shadowedWorld_store)+
  have u: "uniqueCalendarEvents (commit scenarioState (fetchCalendarEvents shadowedWorld scenarioState)) =
       [withGeoLocation ubud (Some \<lparr>latitude = -8.5069, longitude = 115.2625\<rparr>)]"
    unfolding s geocodedEvents_shadowed
    by (simp add: uniqueCalendarEvents_def uniqBy_def withGeoLocation_def ubud_def dup_def)
  have f: "firstSeenById (geocodedEvents shadowedWorld shadowedEvents) =
       [withGeoLocation (dup\<lparr>location := None\<rparr>) None]"
    unfolding geocodedEvents_shadowed uniqBy_index [symmetric]
    by (simp add: uniqBy_def withGeoLocation_def ubud_def dup_def)
  have rest: "id_ev (withGeoLocation (dup\<lparr>location := None\<rparr>) None) =
       id_ev (withGeoLocation ubud (Some \<lparr>latitude = -8.5069, longitude = 115.2625\<rparr>))"
    "find (\<lambda>y. id_ev y = ''1'') (geocodedEvents shadowedWorld shadowedEvents) =
       Some (withGeoLocation (dup\<lparr>location := None\<rparr>) None)"
    "withGeoLocation (dup\<lparr>location := None\<rparr>) None \<noteq>
       withGeoLocation ubud (Some \<lparr>latitude = -8.5069, longitude = 115.2625\<rparr>)"
    unfolding geocodedEvents_shadowed
    by (simp_all add: withGeoLocation_def ubud_def dup_def)
  from geocodedEvents_shadowed rest f u show ?thesis by blast
qed

text \<open>
  C6 as the code has it: after a fetch that the store answers, the deduplication keeps,
  of the events of the enriched batch that have a geo-location, exactly those at a
  position with no earlier located event of the same identifier. The identifiers of the
  result are distinct and are those of the located events, the result is a subsequence
  of the enriched batch (the order of first appearance), every kept event is the first
  located event of the batch with its identifier, and of two located events sharing an
  identifier only the first survives.
\<close>

theorem deduplication_keeps_first_located_occurrences:
  assumes "getCalendarsAsync w = Inr calendars"
    and "getEventsAsync w (map id_cal calendars) (startDate s) (endDate s) = Inr events"
  shows "uniqueCalendarEvents (commit s (fetchCalendarEvents w s)) =
           firstSeenById (filter (\<lambda>event. geoLocation event \<noteq> None) (geocodedEvents w events))
   \<and> distinct (map id_ev (uniqueCalendarEvents (commit s (fetchCalendarEvents w s))))
   \<and> subseq (uniqueCalendarEvents (commit s (fetchCalendarEvents w s))) (geocodedEvents w events)
   \<and> id_ev ` set (uniqueCalendarEvents (commit s (fetchCalendarEvents w s))) =
       id_ev ` {e \<in> set (geocodedEvents w events). geoLocation e \<noteq> None}
   \<and> (\<forall>e \<in> set (uniqueCalendarEvents (commit s (fetchCalendarEvents w s))).
         geoLocation e \<noteq> None
         \<and> find (\<lambda>y. geoLocation y \<noteq> None \<and> id_ev y = id_ev e) (geocodedEvents w events) = Some e)
   \<and> (filter (\<lambda>event. geoLocation event \<noteq> None) (geocodedEvents w events) = [a, b]
        \<and> id_ev a = id_ev b \<longrightarrow>
          uniqueCalendarEvents (commit s (fetchCalendarEvents w s)) = [a])"
proof -
  let ?s' = "commit s (fetchCalendarEvents w s)"
  let ?located = "filter (\<lambda>event. geoLocation event \<noteq> None) (geocodedEvents w events)"
  have st: "calendarEvents ?s' = ?located"
    by (simp add: commit_fetch_success [OF assms])
  note gen = uniqueCalendarEvents_first_occurrences [of ?s' a b, unfolded st]
  have 1: "uniqueCalendarEvents ?s' = firstSeenById ?located"
    using gen by blast
  have 2: "distinct (map id_ev (uniqueCalendarEvents ?s'))"
    using gen by blast
  have sub: "subseq (uniqueCalendarEvents ?s') ?located"
    using gen by blast
  have 3: "subseq (uniqueCalendarEvents ?s') (geocodedEvents w events)"
    by (rule subseq_order.trans [OF sub subseq_filter_left])
  have "id_ev ` set (uniqueCalendarEvents ?s') = id_ev ` set ?located"
    using gen by blast
  then have 4: "id_ev ` set (uniqueCalendarEvents ?s') =
       id_ev ` {e \<in> set (geocodedEvents w events). geoLocation e \<noteq> None}"
    by simp
  have first: "\<forall>e \<in> set (uniqueCalendarEvents ?s'). find (\<lambda>y. id_ev y = id_ev e) ?located = Some e"
    using gen by blast
  have 5: "\<forall>e \<in> set (uniqueCalendarEvents ?s').
         geoLocation e \<noteq> None
         \<and> find (\<lambda>y. geoLocation y \<noteq> None \<and> id_ev y = id_ev e) (geocodedEvents w events) = Some e"
  proof
    fix e
    assume e: "e \<in> set (uniqueCalendarEvents ?s')"
    have "set (uniqueCalendarEvents ?s') \<subseteq> set ?located"
      unfolding uniqueCalendarEvents_def uniqBy_def st by (rule baseUniq_subset)
    with e have "geoLocation e \<noteq> None" by auto
    moreover from first e have "find (\<lambda>y. id_ev y = id_ev e) ?located = Some e" by blast
    ultimately show "geoLocation e \<noteq> None
         \<and> find (\<lambda>y. geoLocation y \<noteq> None \<and> id_ev y = id_ev e) (geocodedEvents w events) = Some e"
      by (simp add: find_filter_conj)
  qed
  have 6: "?located = [a, b] \<and> id_ev a = id_ev b \<longrightarrow> uniqueCalendarEvents ?s' = [a]"
    using gen by blast
  from 1 2 3 4 5 6 show ?thesis by blast
qed

theorem deduplication_keeps_first_located_occurrences_witness:
  "getCalendarsAsync shadowedWorld =
     Inr [\<lparr>id_cal = ''home'', title_cal = ''Home''\<rparr>, \<lparr>id_cal = ''work'', title_cal = ''Work''\<rparr>]
   \<and> getEventsAsync shadowedWorld [''home'', ''work''] 0 604800000 = Inr shadowedEvents
   \<and> filter (\<lambda>event. geoLocation event \<noteq> None) (geocodedEvents shadowedWorld shadowedEvents) =
       [withGeoLocation ubud (Some \<lparr>latitude = -8.5069, longitude = 115.2625\<rparr>),
        withGeoLocation (dup\<lparr>location := Some ''Ubud, Bali''\<rparr>)
          (Some \<lparr>latitude = -8.5069, longitude = 115.2625\<rparr>)]
   \<and> id_ev (withGeoLocation ubud (Some \<lparr>latitude = -8.5069, longitude = 115.2625\<rparr>)) =
       id_ev (withGeoLocation (dup\<lparr>location := Some ''Ubud, Bali''\<rparr>)
                (Some \<lparr>latitude = -8.5069, longitude = 115.2625\<rparr>))
   \<and> withGeoLocation ubud (Some \<lparr>latitude = -8.5069, longitude = 115.2625\<rparr>) \<noteq>
       withGeoLocation (dup\<lparr>location := Some ''Ubud, Bali''\<rparr>)
         (Some \<lparr>latitude = -8.5069, longitude = 115.2625\<rparr>)
   \<and> uniqueCalendarEvents (commit scenarioState (fetchCalendarEvents shadowedWorld scenarioState)) =
       [withGeoLocation ubud (Some \<lparr>latitude = -8.5069, longitude = 115.2625\<rparr>)]"
proof -
  let ?a = "withGeoLocation ubud (Some \<lparr>latitude = -8.5069, longitude = 115.2625\<rparr>)"
  let ?b = "withGeoLocation (dup\<lparr>location := Some ''Ubud, Bali''\<rparr>)
              (Some \<lparr>latitude = -8.5069, longitude = 115.2625\<rparr>)"
  have c: "getCalendarsAsync shadowedWorld =
     Inr [\<lparr>id_cal = ''home'', title_cal = ''Home''\<rparr>, \<lparr>id_cal = ''work'', title_cal = ''Work''\<rparr>]"
    by (rule shadowedWorld_store)
  have e: "getEventsAsync shadowedWorld
             (map id_cal [\<lparr>id_cal = ''home'', title_cal = ''Home''\<rparr>, \<lparr>id_cal = ''work'', title_cal = ''Work''\<rparr>])
             (startDate scenarioState) (endDate scenarioState) = Inr shadowedEvents"
    by (rule shadowedWorld_store)
  have e': "getEventsAsync shadowedWorld [''home'', ''work''] 0 604800000 = Inr shadowedEvents"
    by (rule shadowedWorld_store)
  have l: "filter (\<lambda>event. geoLocation event \<noteq> None) (geocodedEvents shadowedWorld shadowedEvents) = [?a, ?b]"
    unfolding geocodedEvents_shadowed by (simp add: withGeoLocation_def)
  have i: "id_ev ?a = id_ev ?b"
    by (simp add: withGeoLocation_def ubud_def dup_def)
  have d: "?a \<noteq> ?b"
    by (simp add: withGeoLocation_def ubud_def dup_def)
  from deduplication_keeps_first_located_occurrences [OF c e, of ?a ?b] l i
  have u: "uniqueCalendarEvents (commit scenarioState (fetchCalendarEvents shadowedWorld scenarioState)) = [?a]"
    by blast
  from c e' l i d u show ?thesis by blast
qed

text \<open>
  C7. In a fetch that the store answers, an event with a non-empty location causes one
  call of the geocoder with that address. A response with candidates gives the
  coordinate of the first one. A rejected call or a response without candidates gives a
  null geo-location and a console warning, nothing else: the cycle shows no alert,
  queries the store once, looks up each located event once and commits the batch.
\<close>

theorem geocode_failure_degrades_one_event:
  assumes "getCalendarsAsync w = Inr calendars"
    and "getEventsAsync w (map id_cal calendars) (startDate s) (endDate s) = Inr events"
    and "i < length events"
    and "location (events ! i) = Some address"
    and "\<not> falsy address"
  shows "filter isGeocoderFrom (snd (geocodeAll w events ! i)) = [GeocoderFrom address]
    \<and> (\<forall>c cs. Geocoder_from w i address = Resolved (c # cs) \<longrightarrow>
          geocodedEvents w events ! i =
            withGeoLocation (events ! i) (Some \<lparr>latitude = lat c, longitude = lng c\<rparr>)
          \<and> snd (geocodeAll w events ! i) = [GeocoderFrom address])
    \<and> (Geocoder_from w i address = Rejected \<or> Geocoder_from w i address = Resolved [] \<longrightarrow>
          geocodedEvents w events ! i = withGeoLocation (events ! i) None
          \<and> snd (geocodeAll w events ! i) =
              [GeocoderFrom address, ConsoleWarn ''Error getting location from address:'' address])
    \<and> filter isAlert (fetchCalendarEvents w s) = []
    \<and> filter isStoreQuery (fetchCalendarEvents w s) =
         [GetCalendars, GetEvents (map id_cal calendars) (startDate s) (endDate s)]
    \<and> filter isGeocoderFrom (fetchCalendarEvents w s) =
         concat (map (\<lambda>event. case location event of None \<Rightarrow> []
                      | Some address \<Rightarrow> if falsy address then [] else [GeocoderFrom address]) events)
    \<and> calendarEvents (commit s (fetchCalendarEvents w s)) =
         filter (\<lambda>event. geoLocation event \<noteq> None) (geocodedEvents w events)"
proof -
  have one: "geocodeAll w events ! i = geocodeEvent (Geocoder_from w i) (events ! i)"
    using assms(3) by (rule geocodeAll_nth)
  have fst_one: "geocodedEvents w events ! i = fst (geocodeEvent (Geocoder_from w i) (events ! i))"
    using assms(3) by (rule geocodedEvents_nth)
  have a: "filter isGeocoderFrom (snd (geocodeAll w events ! i)) = [GeocoderFrom address]"
    unfolding one geocodeEvent_lookups using assms(4,5) by simp
  have b: "\<forall>c cs. Geocoder_from w i address = Resolved (c # cs) \<longrightarrow>
          geocodedEvents w events ! i =
            withGeoLocation (events ! i) (Some \<lparr>latitude = lat c, longitude = lng c\<rparr>)
          \<and> snd (geocodeAll w events ! i) = [GeocoderFrom address]"
    unfolding one fst_one using assms(4,5)
    by (simp add: geocodeEvent_def getLocationFromAddress_def)
  have c: "Geocoder_from w i address = Rejected \<or> Geocoder_from w i address = Resolved [] \<longrightarrow>
          geocodedEvents w events ! i = withGeoLocation (events ! i) None
          \<and> snd (geocodeAll w events ! i) =
              [GeocoderFrom address, ConsoleWarn ''Error getting location from address:'' address]"
    unfolding one fst_one using assms(4,5)
    by (auto simp: geocodeEvent_def getLocationFromAddress_def)
  have d: "filter isAlert (fetchCalendarEvents w s) = []"
    by (rule filter_trace_fetch_success(1) [OF assms(1,2)])
  have e: "filter isStoreQuery (fetchCalendarEvents w s) =
         [GetCalendars, GetEvents (map id_cal calendars) (startDate s) (endDate s)]"
    by (rule filter_trace_fetch_success(2) [OF assms(1,2)])
  have f: "filter isGeocoderFrom (fetchCalendarEvents w s) =
         concat (map (\<lambda>event. case location event of None \<Rightarrow> []
                      | Some address \<Rightarrow> if falsy address then [] else [GeocoderFrom address]) events)"
  proof -
    have "filter isGeocoderFrom (fetchCalendarEvents w s) =
            filter isGeocoderFrom (concat (map snd (geocodeAll w events)))"
      unfolding fetch_success [OF assms(1,2)] by simp
    then show ?thesis by (simp only: geocodeAll_lookups)
  qed
  have g: "calendarEvents (commit s (fetchCalendarEvents w s)) =
         filter (\<lambda>event. geoLocation event \<noteq> None) (geocodedEvents w events)"
    by (simp add: commit_fetch_success [OF assms(1,2)])
  from a b c d e f g show ?thesis by blast
qed

theorem geocode_failure_degrades_one_event_witness:
  "getCalendarsAsync scenarioWorld =
     Inr [\<lparr>id_cal = ''home'', title_cal = ''Home''\<rparr>, \<lparr>id_cal = ''work'', title_cal = ''Work''\<rparr>]
   \<and> getEventsAsync scenarioWorld [''home'', ''work''] 0 604800000 = Inr scenarioEvents
   \<and> (1::nat) < length scenarioEvents
   \<and> location (scenarioEvents ! 1) = Some ''dup''
   \<and> \<not> falsy ''dup''
   \<and> Geocoder_from scenarioWorld 1 ''dup'' = Rejected
   \<and> geocodedEvents scenarioWorld scenarioEvents ! 1 = withGeoLocation dup None
   \<and> snd (geocodeAll scenarioWorld scenarioEvents ! 1) =
       [GeocoderFrom ''dup'', ConsoleWarn ''Error getting location from address:'' ''dup'']
   \<and> filter isAlert (fetchCalendarEvents scenarioWorld scenarioState) = []
   \<and> filter isGeocoderFrom (fetchCalendarEvents scenarioWorld scenarioState) =
       [GeocoderFrom ''Ubud, Bali'', GeocoderFrom ''dup'', GeocoderFrom ''Xyzzy'']
   \<and> calendarEvents (commit scenarioState (fetchCalendarEvents scenarioWorld scenarioState)) =
       [withGeoLocation ubud (Some \<lparr>latitude = -8.5069, longitude = 115.2625\<rparr>)]"
proof -
  have c: "getCalendarsAsync scenarioWorld =
     Inr [\<lparr>id_cal = ''home'', title_cal = ''Home''\<rparr>, \<lparr>id_cal = ''work'', title_cal = ''Work''\<rparr>]"
    by (simp add: scenarioWorld_def)
  have e: "getEventsAsync scenarioWorld
             (map id_cal [\<lparr>id_cal = ''home'', title_cal = ''Home''\<rparr>, \<lparr>id_cal = ''work'', title_cal = ''Work''\<rparr>])
             (startDate scenarioState) (endDate scenarioState) = Inr scenarioEvents"
    by (simp add: scenarioWorld_def)
  have e': "getEventsAsync scenarioWorld [''home'', ''work''] 0 604800000 = Inr scenarioEvents"
    by (simp add: scenarioWorld_def)
  have l: "(1::nat) < length scenarioEvents"
    by (simp add: scenarioEvents_def)
  have a: "location (scenarioEvents ! 1) = Some ''dup''"
    by (simp add: scenarioEvents_def dup_def)
  have n: "\<not> falsy ''dup''"
    by (simp add: falsy_def)
  have r: "Geocoder_from scenarioWorld 1 ''dup'' = Rejected"
    by (simp add: scenarioWorld_def scenarioGeocoder_def)
  have ev: "scenarioEvents ! 1 = dup"
    by (simp add: scenarioEvents_def)
  have g: "filter (\<lambda>event. geoLocation event \<noteq> None) (geocodedEvents scenarioWorld scenarioEvents) =
        [withGeoLocation ubud (Some \<lparr>latitude = -8.5069, longitude = 115.2625\<rparr>)]"
    by (simp add: geocodedEvents_def geocodeAll_scenario withGeoLocation_def)
  have q: "concat (map (\<lambda>event. case location event of None \<Rightarrow> []
                      | Some address \<Rightarrow> if falsy address then [] else [GeocoderFrom address]) scenarioEvents) =
       [GeocoderFrom ''Ubud, Bali'', GeocoderFrom ''dup'', GeocoderFrom ''Xyzzy'']"
    by (simp add: scenarioEvents_def ubud_def dup_def nowhere_def blank_def unmatched_def falsy_def)
  show ?thesis
    using geocode_failure_degrades_one_event [OF c e l a n] c e' l a n r
    unfolding g q ev by simp
qed

text \<open>
  C8. Without the API key in the process environment, the start of the program throws
  at the load of the module: nothing has run before (the trace is empty) and no render
  exists.
\<close>

theorem missing_api_key_fails_at_module_load:
  assumes "env ''GOOGLE_MAPS_API_KEY'' = None"
  shows "startApp env now weekAhead =
           ([], Some (ErrorObject ''GOOGLE_MAPS_API_KEY environment variable is required.''), None)"
  using assms by (simp add: startApp_def moduleLoad_def)

theorem missing_api_key_fails_at_module_load_witness:
  "Map.empty ''GOOGLE_MAPS_API_KEY'' = (None :: string option)
   \<and> startApp Map.empty 0 604800000 =
       ([], Some (ErrorObject ''GOOGLE_MAPS_API_KEY environment variable is required.''), None)"
  using missing_api_key_fails_at_module_load [of Map.empty 0 604800000] by simp

text \<open>
  With the key, the geocoder is initialised and the first render exists.
\<close>

lemma api_key_present_starts:
  "startApp [''GOOGLE_MAPS_API_KEY'' \<mapsto> ''k''] now weekAhead =
     ([GeocoderInit ''k''], None, Some (initialState now weekAhead))"
  by (simp add: startApp_def moduleLoad_def falsy_def)

text \<open>
  C9. When the picker is dismissed without a date, either handler only calls
  \<open>setShowDatePicker(false)\<close>: start date, end date and event set are unchanged and
  the store is not queried.
\<close>

theorem picker_dismissed_changes_only_visibility:
  "onStartDateChange w s None = [SetShowDatePicker False]
   \<and> onEndDateChange w s None = [SetShowDatePicker False]
   \<and> commit s (onStartDateChange w s None) = s\<lparr>showDatePicker := False\<rparr>
   \<and> commit s (onEndDateChange w s None) = s\<lparr>showDatePicker := False\<rparr>
   \<and> startDate (commit s (onStartDateChange w s None)) = startDate s
   \<and> endDate (commit s (onStartDateChange w s None)) = endDate s
   \<and> calendarEvents (commit s (onStartDateChange w s None)) = calendarEvents s
   \<and> startDate (commit s (onEndDateChange w s None)) = startDate s
   \<and> endDate (commit s (onEndDateChange w s None)) = endDate s
   \<and> calendarEvents (commit s (onEndDateChange w s None)) = calendarEvents s
   \<and> filter isStoreQuery (onStartDateChange w s None) = []
   \<and> filter isStoreQuery (onEndDateChange w s None) = []"
  by (simp add: onStartDateChange_def onEndDateChange_def commit_def)

text \<open>
  C10. Pressing a marker whose event has a falsy identifier, or on a platform for which
  \<open>Platform.select\<close> yields undefined, asks for no link, opens none, shows no alert
  and returns normally.
\<close>

theorem marker_press_silent_noop:
  assumes "falsy (id_ev event)
           \<or> Platform_select (Platform_OS w)
                (''calshow:'' @ calendarId event @ ''&event='' @ id_ev event)
                (''content://com.android.calendar/events/'' @ calendarId event @ ''&event='' @ id_ev event)
              = None"
  shows "filter isLink (fst (onMarkerPress w event)) = []
         \<and> filter isAlert (fst (onMarkerPress w event)) = []
         \<and> snd (onMarkerPress w event) = None"
  using assms by (auto simp: onMarkerPress_def Let_def)

theorem marker_press_silent_noop_witness:
  "falsy (id_ev (withGeoLocation (ubud\<lparr>id_ev := []\<rparr>) None))
   \<and> onMarkerPress (scenarioWorld\<lparr>Platform_OS := Android\<rparr>) (withGeoLocation (ubud\<lparr>id_ev := []\<rparr>) None) = ([], None)
   \<and> Platform_select (Platform_OS scenarioWorld) ''calshow:home&event=1''
        ''content://com.android.calendar/events/home&event=1'' = None
   \<and> onMarkerPress scenarioWorld (withGeoLocation ubud None) =
        ([ConsoleLog ''Opening calendar event:'' ''home&event=1''], None)"
proof -
  let ?anon = "withGeoLocation (ubud\<lparr>id_ev := []\<rparr>) None"
  have a: "falsy (id_ev ?anon)"
    by (simp add: withGeoLocation_def falsy_def)
  have b: "Platform_select (Platform_OS scenarioWorld)
             (''calshow:'' @ calendarId (withGeoLocation ubud None) @ ''&event='' @ id_ev (withGeoLocation ubud None))
             (''content://com.android.calendar/events/'' @ calendarId (withGeoLocation ubud None)
                @ ''&event='' @ id_ev (withGeoLocation ubud None)) = None"
    by (simp add: scenarioWorld_def)
  have c: "Platform_select (Platform_OS scenarioWorld) ''calshow:home&event=1''
        ''content://com.android.calendar/events/home&event=1'' = None"
    by (simp add: scenarioWorld_def)
  have t1: "fst (onMarkerPress (scenarioWorld\<lparr>Platform_OS := Android\<rparr>) ?anon) = []"
    by (simp add: onMarkerPress_def Let_def withGeoLocation_def falsy_def)
  have t2: "fst (onMarkerPress scenarioWorld (withGeoLocation ubud None)) =
              [ConsoleLog ''Opening calendar event:'' ''home&event=1'']"
    by (simp add: onMarkerPress_def Let_def withGeoLocation_def falsy_def ubud_def scenarioWorld_def)
  show ?thesis
    using marker_press_silent_noop [of ?anon "scenarioWorld\<lparr>Platform_OS := Android\<rparr>", OF disjI1, OF a]
      marker_press_silent_noop [of "withGeoLocation ubud None" scenarioWorld, OF disjI2, OF b]
      a c t1 t2
    by (simp add: prod_eq_iff)
qed

end
